theory Spec2Isabelle
  imports Complex_Main
begin

section \<open>Values, errors and the observable world\<close>

text \<open>
  The notebook \<^verbatim>\<open>third_party/MongoDB/rag_using_mongodb.ipynb\<close> is glue code around four
  remote services. Each Python function is modelled as a function that takes the service
  it calls as a parameter, threads a record of everything the outside can observe
  (lines printed, requests sent) and returns either the exception raised or the value
  returned.

  A Python \<^verbatim>\<open>str\<close> is a sequence of Unicode code points: it is modelled as a list of
  natural numbers, and \<open>lit\<close> turns an ASCII literal of the source into that form.
\<close>

type_synonym pystr = "nat list"

definition lit :: "string \<Rightarrow> pystr" where
  "lit s = map of_char s"

text \<open>
  Exceptions. \<open>IndexError\<close>, \<open>TypeError\<close> and \<open>AttributeError\<close> are raised by the
  interpreter itself; \<open>ConnectionFailure\<close> is \<^verbatim>\<open>pymongo.errors.ConnectionFailure\<close> with
  its message; \<open>Remote\<close> stands for any other exception raised inside a client library.
\<close>

datatype error =
    IndexError
  | TypeError
  | AttributeError
  | ConnectionFailure pystr
  | Remote pystr

text \<open>
  Field values of a record (a Python dict read from the dataset or the database). \<open>VNaN\<close>
  is the float \<^verbatim>\<open>nan\<close>, which is not a real number.
\<close>

datatype "value" =
    VStr pystr
  | VNum real
  | VVec "real list"
  | VNone
  | VNaN

type_synonym doc = "pystr \<rightharpoonup> value"

text \<open>The two stages the notebook puts into its aggregation pipeline.\<close>

datatype stage =
    VectorSearch (index: pystr) (queryVector: "real list") (path: pystr)
                 (numCandidates: nat) (limit: nat)
  | Project (excluded: "pystr list") (meta_field: pystr)

datatype db_op =
    Aggregate "stage list"
  | DeleteMany
  | InsertMany "doc list"

record request =
  model :: pystr
  max_tokens :: nat
  system :: pystr
  messages :: "(pystr \<times> pystr) list"

record world =
  stdout :: "pystr list"
  http_calls :: "(pystr \<times> pystr) list"
  embed_calls :: "(pystr \<times> pystr \<times> pystr) list"
  db_calls :: "db_op list"
  llm_calls :: "request list"

definition print :: "pystr \<Rightarrow> world \<Rightarrow> world" where
  "print line s = s\<lparr>stdout := stdout s @ [line]\<rparr>"

text \<open>The world before the notebook runs: nothing printed, nothing sent.\<close>

definition world0 :: world where
  "world0 = \<lparr>stdout = [], http_calls = [], embed_calls = [], db_calls = [], llm_calls = []\<rparr>"

section \<open>The Embedder\<close>

text \<open>
  \<^verbatim>\<open>str.strip()\<close> removes leading and trailing whitespace; \<open>isspace\<close> is the set of
  code points for which Python's \<^verbatim>\<open>str.isspace\<close> holds.
\<close>

definition isspace :: "nat \<Rightarrow> bool" where
  "isspace c \<longleftrightarrow>
     (9 \<le> c \<and> c \<le> 13) \<or> (28 \<le> c \<and> c \<le> 32) \<or> c = 133 \<or> c = 160 \<or> c = 5760 \<or>
     (8192 \<le> c \<and> c \<le> 8202) \<or> c = 8232 \<or> c = 8233 \<or> c = 8239 \<or> c = 8287 \<or> c = 12288"

definition strip :: "pystr \<Rightarrow> pystr" where
  "strip text = rev (dropWhile isspace (rev (dropWhile isspace text)))"

text \<open>
  \<^verbatim>\<open>
  def get_embedding(text: str) -> list[float]:
      if not text.strip():
        print("Attempted to get embedding for empty text.")
        return []
      embedding = vo.embed(text, model="voyage-large-2", input_type="document")
      return embedding.embeddings[0]
  \<close>
  \<open>vo\<close> is the remote embedding service: it raises or answers with the list
  \<^verbatim>\<open>embeddings\<close>. The result is an option because the caller tests it against Python's
  \<^verbatim>\<open>None\<close>: \<open>Some v\<close> is the list \<open>v\<close>, \<open>None\<close> is \<^verbatim>\<open>None\<close>.
\<close>

definition get_embedding ::
  "(pystr \<Rightarrow> error + real list list) \<Rightarrow> pystr \<Rightarrow> world \<Rightarrow> (error + real list option) \<times> world"
where
  "get_embedding vo text s =
     (if strip text = [] then
        (Inr (Some []), print (lit ''Attempted to get embedding for empty text.'') s)
      else
        let s' = s\<lparr>embed_calls :=
                     embed_calls s @ [(text, lit ''voyage-large-2'', lit ''document'')]\<rparr>
        in case vo text of
             Inl e \<Rightarrow> (Inl e, s')
           | Inr embeddings \<Rightarrow>
               (case embeddings of
                  [] \<Rightarrow> (Inl IndexError, s')
                | v # _ \<Rightarrow> (Inr (Some v), s')))"

text \<open>
  The vector index definition the notebook asks the reader to create on the database:
  \<^verbatim>\<open>{"fields": [{"numDimensions": 1536, "path": "embedding", "similarity": "cosine",
  "type": "vector"}]}\<close>, under the name \<^verbatim>\<open>vector_index\<close>.
\<close>

record vindex =
  index_name :: pystr
  index_path :: pystr
  numDimensions :: nat

definition vector_index :: vindex where
  "vector_index = \<lparr>index_name = lit ''vector_index'', index_path = lit ''embedding'',
                    numDimensions = 1536\<rparr>"

text \<open>
  The contract of the embedding service for the model \<^verbatim>\<open>voyage-large-2\<close>: for a text that
  is not blank it answers with exactly one vector, of the index's dimensionality.
\<close>

definition honours_contract :: "(pystr \<Rightarrow> error + real list list) \<Rightarrow> bool" where
  "honours_contract vo \<longleftrightarrow>
     (\<forall>text. strip text \<noteq> [] \<longrightarrow>
        (\<exists>v. vo text = Inr [v] \<and> length v = numDimensions vector_index))"

section \<open>The Index Store client\<close>

text \<open>
  \<^verbatim>\<open>
  def vector_search(user_query, collection):
      query_embedding = get_embedding(user_query)
      if query_embedding is None:
          return "Invalid query or embedding generation failed."
      pipeline = [
          {"$vectorSearch": {"index": "vector_index", "queryVector": query_embedding,
                             "path": "embedding", "numCandidates": 150, "limit": 5}},
          {"$project": {"_id": 0, "embedding": 0, "score": {"$meta": "vectorSearchScore"}}}
      ]
      results = collection.aggregate(pipeline)
      return list(results)
  \<close>
  The function returns either a message (a \<^verbatim>\<open>str\<close>) or the list of records.
  \<open>aggregate\<close> is the one method of the collection that the function calls.
\<close>

datatype search_out = Message pystr | Results "doc list"

definition search_pipeline :: "real list \<Rightarrow> stage list" where
  "search_pipeline query_embedding =
     [VectorSearch (lit ''vector_index'') query_embedding (lit ''embedding'') 150 5,
      Project [lit ''_id'', lit ''embedding''] (lit ''score'')]"

definition vector_search ::
  "(pystr \<Rightarrow> error + real list list) \<Rightarrow> (stage list \<Rightarrow> error + doc list) \<Rightarrow> pystr \<Rightarrow> world
     \<Rightarrow> (error + search_out) \<times> world"
where
  "vector_search vo aggregate user_query s =
     (case get_embedding vo user_query s of
        (Inl e, s1) \<Rightarrow> (Inl e, s1)
      | (Inr None, s1) \<Rightarrow>
          (Inr (Message (lit ''Invalid query or embedding generation failed.'')), s1)
      | (Inr (Some query_embedding), s1) \<Rightarrow>
          let pipeline = search_pipeline query_embedding;
              s2 = s1\<lparr>db_calls := db_calls s1 @ [Aggregate pipeline]\<rparr>
          in case aggregate pipeline of
               Inl e \<Rightarrow> (Inl e, s2)
             | Inr results \<Rightarrow> (Inr (Results results), s2))"

subsection \<open>The store behind the collection\<close>

text \<open>
  The database that executes the pipeline is a remote service, and none of its code is in
  the repository. The definitions of this subsection follow what sections 3, 4.3 and 6 of
  the specification say of it. The similarity metric \<open>sim\<close> (cosine for the index of the
  notebook) is a parameter throughout.
\<close>

text \<open>
  Modelled from the spec: when a record can be found by the vector search of the remote
  database. Its embedding, the vector under the path searched, has the dimensionality
  configured on the index; a mismatch makes the record unsearchable.
\<close>

definition searchable :: "vindex \<Rightarrow> pystr \<Rightarrow> doc \<Rightarrow> bool" where
  "searchable ix p d =
     (case d p of Some (VVec v) \<Rightarrow> length v = numDimensions ix | _ \<Rightarrow> False)"

text \<open>
  Modelled from the spec: the similarity score that the remote database gives a record,
  the metric applied to the query vector and the embedding of the record.
\<close>

definition similarity :: "(real list \<Rightarrow> real list \<Rightarrow> real) \<Rightarrow> real list \<Rightarrow> pystr \<Rightarrow> doc \<Rightarrow> real" where
  "similarity sim qv p d = (case d p of Some (VVec v) \<Rightarrow> sim qv v | _ \<Rightarrow> 0)"

text \<open>
  Modelled from the spec: the vector search stage of the remote database. It ranks the
  searchable records by descending similarity to the query vector, keeps a pool of
  \<open>numCandidates\<close> and returns the first \<open>limit\<close> of them, each with its similarity.
  Records of equal similarity stay in the order of the store, one of the orders that the
  specification leaves open. A query vector of another dimensionality than the index is a
  failure of the store.
\<close>

definition vectorSearch_stage ::
  "(real list \<Rightarrow> real list \<Rightarrow> real) \<Rightarrow> vindex \<Rightarrow> doc list \<Rightarrow> real list \<Rightarrow> pystr \<Rightarrow> nat \<Rightarrow> nat
     \<Rightarrow> error + (doc \<times> real) list"
where
  "vectorSearch_stage sim ix docs qv p n k =
     (if length qv \<noteq> numDimensions ix then Inl (Remote (lit ''dimension mismatch''))
      else Inr (take k (take n (sort_key (\<lambda>h. - snd h)
                  (map (\<lambda>d. (d, similarity sim qv p d)) (filter (searchable ix p) docs))))))"

text \<open>
  Modelled from the spec: the projection stage of the remote database. It drops the
  excluded fields of each record and adds its similarity score under the given name.
\<close>

definition project_stage :: "pystr list \<Rightarrow> pystr \<Rightarrow> (doc \<times> real) list \<Rightarrow> doc list" where
  "project_stage ex f hits = map (\<lambda>(d, sc). (d |` (- set ex))(f \<mapsto> VNum sc)) hits"

text \<open>
  Modelled from the spec: \<^verbatim>\<open>collection.aggregate\<close> of the remote database, for the one
  shape of pipeline that the specification describes, a vector search stage followed by a
  projection stage. Any other pipeline is outside the model and is answered by an error.
\<close>

fun store_aggregate ::
  "(real list \<Rightarrow> real list \<Rightarrow> real) \<Rightarrow> vindex \<Rightarrow> doc list \<Rightarrow> stage list \<Rightarrow> error + doc list"
where
  "store_aggregate sim ix docs [VectorSearch i qv p n k, Project ex f] =
     (case vectorSearch_stage sim ix docs qv p n k of
        Inl e \<Rightarrow> Inl e
      | Inr hits \<Rightarrow> Inr (project_stage ex f hits))"
| "store_aggregate sim ix docs pipeline = Inl (Remote (lit ''pipeline not modelled''))"

text \<open>
  Modelled from the spec: the hits of the vector search stage of the remote database for
  the pipeline that \<open>vector_search\<close> sends, with its path, its pool of 150 candidates and
  its limit of 5.
\<close>

definition ranked ::
  "(real list \<Rightarrow> real list \<Rightarrow> real) \<Rightarrow> vindex \<Rightarrow> doc list \<Rightarrow> real list \<Rightarrow> (doc \<times> real) list" where
  "ranked sim ix docs qv =
     take 5 (take 150 (sort_key (\<lambda>h. - snd h)
       (map (\<lambda>d. (d, similarity sim qv (lit ''embedding'') d))
          (filter (searchable ix (lit ''embedding'')) docs))))"

section \<open>The Answer Generator\<close>

text \<open>
  An f-string renders a field value with \<^verbatim>\<open>str\<close>: a string is itself, \<^verbatim>\<open>None\<close> is
  \<^verbatim>\<open>None\<close>, \<^verbatim>\<open>nan\<close> is \<^verbatim>\<open>nan\<close>, a list is its elements between brackets. How Python prints a float is a
  parameter, \<open>fl\<close>.
\<close>

fun join :: "pystr \<Rightarrow> pystr list \<Rightarrow> pystr" where
  "join sep [] = []"
| "join sep [x] = x"
| "join sep (x # y # ys) = x @ sep @ join sep (y # ys)"

fun format_value :: "(real \<Rightarrow> pystr) \<Rightarrow> value \<Rightarrow> pystr" where
  "format_value fl (VStr t) = t"
| "format_value fl (VNum x) = fl x"
| "format_value fl (VVec xs) = lit ''['' @ join (lit '', '') (map fl xs) @ lit '']''"
| "format_value fl VNone = lit ''None''"
| "format_value fl VNaN = lit ''nan''"

text \<open>\<^verbatim>\<open>f"{result.get(key, 'N/A')}"\<close>\<close>

definition get_field :: "(real \<Rightarrow> pystr) \<Rightarrow> doc \<Rightarrow> string \<Rightarrow> pystr" where
  "get_field fl result key =
     (case result (lit key) of Some v \<Rightarrow> format_value fl v | None \<Rightarrow> lit ''N/A'')"

definition result_line :: "(real \<Rightarrow> pystr) \<Rightarrow> doc \<Rightarrow> pystr" where
  "result_line fl result =
     lit ''Title: '' @ get_field fl result ''title'' @ lit '', '' @
     lit ''Company Name: '' @ get_field fl result ''companyName'' @ lit '', '' @
     lit ''Company URL: '' @ get_field fl result ''companyUrl'' @ lit '', '' @
     lit ''Date Published: '' @ get_field fl result ''published_at'' @ lit '', '' @
     lit ''Article URL: '' @ get_field fl result ''url'' @ lit '', '' @
     lit ''Description: '' @ get_field fl result ''description'' @ lit '', '' @ [10]"

text \<open>
  The loop \<^verbatim>\<open>for result in get_knowledge: search_result += ...\<close>, with the string built so
  far as accumulator.
\<close>

fun render_results :: "(real \<Rightarrow> pystr) \<Rightarrow> pystr \<Rightarrow> doc list \<Rightarrow> pystr" where
  "render_results fl search_result [] = search_result"
| "render_results fl search_result (result # rest) =
     render_results fl (search_result @ result_line fl result) rest"

text \<open>
  When \<open>vector_search\<close> has returned its message, the loop runs over the characters of a
  \<^verbatim>\<open>str\<close>, and \<^verbatim>\<open>.get\<close> on the first of them raises \<^verbatim>\<open>AttributeError\<close>.
\<close>

definition render_knowledge :: "(real \<Rightarrow> pystr) \<Rightarrow> search_out \<Rightarrow> error + pystr" where
  "render_knowledge fl get_knowledge =
     (case get_knowledge of
        Results rs \<Rightarrow> Inr (render_results fl [] rs)
      | Message m \<Rightarrow> (if m = [] then Inr [] else Inl AttributeError))"

definition llm_request :: "pystr \<Rightarrow> pystr \<Rightarrow> request" where
  "llm_request query search_result =
     \<lparr>model = lit ''claude-3-opus-20240229'',
      max_tokens = 1024,
      system = lit ''You are Venture Captital Tech Analyst with access to some tech company articles and information. You use the information you are given to provide advice.'',
      messages = [(lit ''user'',
                   lit ''Answer this user query: '' @ query @
                   lit '' with the following context: '' @ search_result)]\<rparr>"

text \<open>
  \<^verbatim>\<open>
  def handle_user_query(query, collection):
    get_knowledge = vector_search(query, collection)
    search_result = ''
    for result in get_knowledge:
      search_result += (...)
    response = client.messages.create(model=..., max_tokens=1024, system=..., messages=[...])
    return (response.content[0].text), search_result
  \<close>
  \<open>messages_create\<close> is the remote language model: it raises or answers with the list of
  text segments of \<^verbatim>\<open>response.content\<close>.
\<close>

definition handle_user_query ::
  "(pystr \<Rightarrow> error + real list list) \<Rightarrow> (stage list \<Rightarrow> error + doc list) \<Rightarrow>
   (request \<Rightarrow> error + pystr list) \<Rightarrow> (real \<Rightarrow> pystr) \<Rightarrow> pystr \<Rightarrow> world
     \<Rightarrow> (error + pystr \<times> pystr) \<times> world"
where
  "handle_user_query vo aggregate messages_create fl query s =
     (case vector_search vo aggregate query s of
        (Inl e, s1) \<Rightarrow> (Inl e, s1)
      | (Inr get_knowledge, s1) \<Rightarrow>
          (case render_knowledge fl get_knowledge of
             Inl e \<Rightarrow> (Inl e, s1)
           | Inr search_result \<Rightarrow>
               let req = llm_request query search_result;
                   s2 = s1\<lparr>llm_calls := llm_calls s1 @ [req]\<rparr>
               in case messages_create req of
                    Inl e \<Rightarrow> (Inl e, s2)
                  | Inr content \<Rightarrow>
                      (case content of
                         [] \<Rightarrow> (Inl IndexError, s2)
                       | t # _ \<Rightarrow> (Inr (t, search_result), s2))))"

section \<open>The Corpus Loader\<close>

text \<open>A response of \<^verbatim>\<open>requests.get\<close>.\<close>

record response =
  status_code :: int
  content :: "nat list"

text \<open>
  A table (\<^verbatim>\<open>pandas.DataFrame\<close>): its column labels, in order, and its rows, in order,
  each row giving the cell of every column.
\<close>

record dataframe =
  columns :: "pystr list"
  rows :: "doc list"

text \<open>
  \<^verbatim>\<open>pd.concat(frames, ignore_index=True)\<close> with its default outer join: the columns of the
  result are the columns of all the frames, each once, in the order of first appearance;
  the rows are the rows of the frames, in order and renumbered; a row has \<^verbatim>\<open>nan\<close> in the
  columns that its own frame does not have.
\<close>

definition union_columns :: "dataframe list \<Rightarrow> pystr list" where
  "union_columns frames = rev (remdups (rev (concat (map columns frames))))"

definition reindex :: "pystr list \<Rightarrow> dataframe \<Rightarrow> doc \<Rightarrow> doc" where
  "reindex cols df row =
     (\<lambda>c. if c \<in> set cols then (if c \<in> set (columns df) then row c else Some VNaN)
          else None)"

definition pd_concat :: "dataframe list \<Rightarrow> dataframe" where
  "pd_concat frames =
     \<lparr>columns = union_columns frames,
      rows = concat (map (\<lambda>df. map (reindex (union_columns frames) df) (rows df)) frames)\<rparr>"

text \<open>
  \<^verbatim>\<open>df.to_dict(orient='records')\<close>: one dict for each row, with the columns as keys.
\<close>

definition to_dict_records :: "dataframe \<Rightarrow> doc list" where
  "to_dict_records df = map (\<lambda>row. row |` set (columns df)) (rows df)"

text \<open>\<^verbatim>\<open>str\<close> of an integer: its decimal digits, with a sign when negative.\<close>

fun digits :: "nat \<Rightarrow> pystr" where
  "digits n = (if n < 10 then [48 + n] else digits (n div 10) @ [48 + n mod 10])"

declare digits.simps [simp del]

definition str_int :: "int \<Rightarrow> pystr" where
  "str_int i = (if i < 0 then 45 # digits (nat (- i)) else digits (nat i))"

text \<open>
  \<^verbatim>\<open>
  def download_and_combine_parquet_files(parquet_file_urls, hf_token):
      headers = {"Authorization": f"Bearer {hf_token}"}
      all_dataframes = []
      for parquet_file_url in parquet_file_urls:
          response = requests.get(parquet_file_url, headers=headers)
          if response.status_code == 200:
              parquet_bytes = BytesIO(response.content)
              df = pd.read_parquet(parquet_bytes)
              all_dataframes.append(df)
          else:
              print(f"Failed to download Parquet file from {parquet_file_url}: {response.status_code}")
      if all_dataframes:
          combined_df = pd.concat(all_dataframes, ignore_index=True)
          return combined_df
      else:
          print("No dataframes to concatenate.")
          return None
  \<close>
  \<open>requests_get\<close> takes the location and the authorization header and raises or answers;
  \<open>read_parquet\<close> raises or decodes the bytes. \<open>download_loop\<close> is the \<^verbatim>\<open>for\<close> loop, with
  \<^verbatim>\<open>all_dataframes\<close> as accumulator.
\<close>

definition failure_line :: "pystr \<Rightarrow> int \<Rightarrow> pystr" where
  "failure_line parquet_file_url code =
     lit ''Failed to download Parquet file from '' @ parquet_file_url @ lit '': '' @ str_int code"

fun download_loop ::
  "(pystr \<Rightarrow> pystr \<Rightarrow> error + response) \<Rightarrow> (nat list \<Rightarrow> error + dataframe) \<Rightarrow> pystr \<Rightarrow>
   pystr list \<Rightarrow> dataframe list \<Rightarrow> world \<Rightarrow> (error + dataframe list) \<times> world"
where
  "download_loop requests_get read_parquet headers [] all_dataframes s = (Inr all_dataframes, s)"
| "download_loop requests_get read_parquet headers (parquet_file_url # rest) all_dataframes s =
     (let s1 = s\<lparr>http_calls := http_calls s @ [(parquet_file_url, headers)]\<rparr>
      in case requests_get parquet_file_url headers of
           Inl e \<Rightarrow> (Inl e, s1)
         | Inr response \<Rightarrow>
             if status_code response = 200 then
               (case read_parquet (content response) of
                  Inl e \<Rightarrow> (Inl e, s1)
                | Inr df \<Rightarrow>
                    download_loop requests_get read_parquet headers rest (all_dataframes @ [df]) s1)
             else
               download_loop requests_get read_parquet headers rest all_dataframes
                 (print (failure_line parquet_file_url (status_code response)) s1))"

definition download_and_combine_parquet_files ::
  "(pystr \<Rightarrow> pystr \<Rightarrow> error + response) \<Rightarrow> (nat list \<Rightarrow> error + dataframe) \<Rightarrow>
   pystr list \<Rightarrow> pystr \<Rightarrow> world \<Rightarrow> (error + dataframe option) \<times> world"
where
  "download_and_combine_parquet_files requests_get read_parquet parquet_file_urls hf_token s =
     (let headers = lit ''Bearer '' @ hf_token
      in case download_loop requests_get read_parquet headers parquet_file_urls [] s of
           (Inl e, s1) \<Rightarrow> (Inl e, s1)
         | (Inr all_dataframes, s1) \<Rightarrow>
             if all_dataframes \<noteq> [] then (Inr (Some (pd_concat all_dataframes)), s1)
             else (Inr None, print (lit ''No dataframes to concatenate.'') s1))"

text \<open>
  What a run of the loader is measured against: the tables of the locations that answered
  200, in the order of the list, and the lines logged for the others.
\<close>

definition fetched ::
  "(pystr \<Rightarrow> pystr \<Rightarrow> error + response) \<Rightarrow> (nat list \<Rightarrow> error + dataframe) \<Rightarrow> pystr \<Rightarrow>
   pystr \<Rightarrow> dataframe list"
where
  "fetched requests_get read_parquet headers url =
     (case requests_get url headers of
        Inl e \<Rightarrow> []
      | Inr response \<Rightarrow>
          if status_code response = 200 then
            (case read_parquet (content response) of Inl e \<Rightarrow> [] | Inr df \<Rightarrow> [df])
          else [])"

definition failed :: "(pystr \<Rightarrow> pystr \<Rightarrow> error + response) \<Rightarrow> pystr \<Rightarrow> pystr \<Rightarrow> pystr list" where
  "failed requests_get headers url =
     (case requests_get url headers of
        Inl e \<Rightarrow> []
      | Inr response \<Rightarrow>
          if status_code response = 200 then [] else [failure_line url (status_code response)])"

text \<open>
  Every location answers, and what answers 200 decodes: the only failures are responses
  with another status.
\<close>

definition answers ::
  "(pystr \<Rightarrow> pystr \<Rightarrow> error + response) \<Rightarrow> (nat list \<Rightarrow> error + dataframe) \<Rightarrow> pystr \<Rightarrow>
   pystr \<Rightarrow> bool"
where
  "answers requests_get read_parquet headers url =
     (case requests_get url headers of
        Inl e \<Rightarrow> False
      | Inr response \<Rightarrow>
          if status_code response = 200 then
            (case read_parquet (content response) of Inl e \<Rightarrow> False | Inr df \<Rightarrow> True)
          else True)"

section \<open>Connecting to the database\<close>

text \<open>
  \<^verbatim>\<open>
  def get_mongo_client(mongo_uri):
    try:
      client = pymongo.MongoClient(mongo_uri)
      print("Connection to MongoDB successful")
      return client
    except pymongo.errors.ConnectionFailure as e:
      print(f"Connection failed: {e}")
      return None
  \<close>
  \<open>MongoClient\<close> raises or yields a client. Only \<open>ConnectionFailure\<close> is caught; \<open>None\<close> is
  Python's \<^verbatim>\<open>None\<close>.
\<close>

definition get_mongo_client ::
  "(pystr option \<Rightarrow> error + 'c) \<Rightarrow> pystr option \<Rightarrow> world \<Rightarrow> (error + 'c option) \<times> world"
where
  "get_mongo_client MongoClient mongo_uri s =
     (case MongoClient mongo_uri of
        Inr client \<Rightarrow> (Inr (Some client), print (lit ''Connection to MongoDB successful'') s)
      | Inl (ConnectionFailure e) \<Rightarrow> (Inr None, print (lit ''Connection failed: '' @ e) s)
      | Inl e \<Rightarrow> (Inl e, s))"

text \<open>
  The rest of the same cell, and the two cells after it:
  \<^verbatim>\<open>
  mongo_uri = userdata.get('MONGO_URI')
  if not mongo_uri:
    print("MONGO_URI not set in environment variables")
  mongo_client = get_mongo_client(mongo_uri)
  DB_NAME="tech_news"
  COLLECTION_NAME="hacker_noon_tech_news"
  db = mongo_client[DB_NAME]
  collection = db[COLLECTION_NAME]

  collection.delete_many({})

  combined_df_json = combined_df.to_dict(orient='records')
  collection.insert_many(combined_df_json)
  \<close>
  Subscripting \<^verbatim>\<open>None\<close> raises \<^verbatim>\<open>TypeError\<close>. The cells run in order, and a cell that
  raises stops the run.
\<close>

record 'c collection =
  client :: 'c
  db_name :: pystr
  collection_name :: pystr

definition connect_cell ::
  "(pystr option \<Rightarrow> error + 'c) \<Rightarrow> pystr option \<Rightarrow> world \<Rightarrow> (error + 'c collection) \<times> world"
where
  "connect_cell MongoClient mongo_uri s =
     (let s0 = (if mongo_uri = None \<or> mongo_uri = Some [] then
                  print (lit ''MONGO_URI not set in environment variables'') s
                else s)
      in case get_mongo_client MongoClient mongo_uri s0 of
           (Inl e, s1) \<Rightarrow> (Inl e, s1)
         | (Inr None, s1) \<Rightarrow> (Inl TypeError, s1)
         | (Inr (Some mongo_client), s1) \<Rightarrow>
             (Inr \<lparr>client = mongo_client, db_name = lit ''tech_news'',
                   collection_name = lit ''hacker_noon_tech_news''\<rparr>, s1))"

definition clear_cell ::
  "('c collection \<Rightarrow> error + unit) \<Rightarrow> 'c collection \<Rightarrow> world \<Rightarrow> (error + unit) \<times> world"
where
  "clear_cell delete_many collection s =
     (delete_many collection, s\<lparr>db_calls := db_calls s @ [DeleteMany]\<rparr>)"

definition ingest_cell ::
  "('c collection \<Rightarrow> doc list \<Rightarrow> error + unit) \<Rightarrow> 'c collection \<Rightarrow> dataframe \<Rightarrow> world
     \<Rightarrow> (error + unit) \<times> world"
where
  "ingest_cell insert_many collection combined_df s =
     (let combined_df_json = to_dict_records combined_df
      in (insert_many collection combined_df_json,
          s\<lparr>db_calls := db_calls s @ [InsertMany combined_df_json]\<rparr>))"

definition database_cells ::
  "(pystr option \<Rightarrow> error + 'c) \<Rightarrow> ('c collection \<Rightarrow> error + unit) \<Rightarrow>
   ('c collection \<Rightarrow> doc list \<Rightarrow> error + unit) \<Rightarrow> pystr option \<Rightarrow> dataframe \<Rightarrow> world
     \<Rightarrow> (error + 'c collection) \<times> world"
where
  "database_cells MongoClient delete_many insert_many mongo_uri combined_df s =
     (case connect_cell MongoClient mongo_uri s of
        (Inl e, s1) \<Rightarrow> (Inl e, s1)
      | (Inr collection, s1) \<Rightarrow>
          (case clear_cell delete_many collection s1 of
             (Inl e, s2) \<Rightarrow> (Inl e, s2)
           | (Inr _, s2) \<Rightarrow>
               (case ingest_cell insert_many collection combined_df s2 of
                  (Inl e, s3) \<Rightarrow> (Inl e, s3)
                | (Inr _, s3) \<Rightarrow> (Inr collection, s3))))"

section \<open>Properties of the Embedder\<close>

lemma strip_empty_iff: "strip text = [] \<longleftrightarrow> (\<forall>c\<in>set text. isspace c)"
proof
  assume "strip text = []"
  then have "dropWhile isspace (rev (dropWhile isspace text)) = []"
    by (simp add: strip_def)
  then have "\<forall>c\<in>set (dropWhile isspace text). isspace c"
    by simp
  moreover have "dropWhile isspace text \<noteq> [] \<Longrightarrow> \<not> isspace (hd (dropWhile isspace text))"
    by (rule hd_dropWhile)
  ultimately have "dropWhile isspace text = []"
    by (cases "dropWhile isspace text") auto
  then show "\<forall>c\<in>set text. isspace c"
    by simp
next
  assume "\<forall>c\<in>set text. isspace c"
  then have "dropWhile isspace text = []"
    by simp
  then show "strip text = []"
    by (simp only: strip_def rev.simps dropWhile.simps)
qed

text \<open>
  C2. For a text that is empty or consists only of whitespace, \<open>get_embedding\<close> returns
  the empty vector: it does not raise, whatever the remote service would do, it prints its
  one message, and the list of requests sent to the embedding service is the one it
  started with (no call, hence no quota consumed).
\<close>

theorem get_embedding_blank:
  assumes "\<forall>c\<in>set text. isspace c"
  shows "get_embedding vo text s =
           (Inr (Some []), print (lit ''Attempted to get embedding for empty text.'') s) \<and>
         embed_calls (snd (get_embedding vo text s)) = embed_calls s"
  using assms by (simp add: get_embedding_def strip_empty_iff print_def)

theorem get_embedding_blank_witness:
  "isspace 32 \<and> isspace 9 \<and> isspace 10 \<and> isspace 8195 \<and>
   fst (get_embedding (\<lambda>t. Inl (Remote [])) [32, 9, 10, 8195] world0) = Inr (Some []) \<and>
   embed_calls (snd (get_embedding (\<lambda>t. Inl (Remote [])) [32, 9, 10, 8195] world0)) = []"
proof -
  have h: "\<forall>c\<in>set [32, 9, 10, 8195]. isspace c"
    by (simp add: isspace_def)
  show ?thesis
    using h get_embedding_blank [OF h, of "\<lambda>t. Inl (Remote [])" world0]
    by (simp add: world0_def print_def)
qed

text \<open>
  C5. For a text that is not blank, and a remote embedding service that honours its
  contract, \<open>get_embedding\<close> returns a vector whose length is the dimensionality
  configured on the index, 1536, after exactly one request to the service.
\<close>

theorem get_embedding_dimension:
  assumes "strip text \<noteq> []" and "honours_contract vo"
  shows "\<exists>v. fst (get_embedding vo text s) = Inr (Some v) \<and> length v = 1536 \<and>
              embed_calls (snd (get_embedding vo text s)) =
                embed_calls s @ [(text, lit ''voyage-large-2'', lit ''document'')]"
proof -
  from assms obtain v where v: "vo text = Inr [v]" "length v = numDimensions vector_index"
    unfolding honours_contract_def by blast
  have "length v = 1536"
    using v(2) by (simp add: vector_index_def)
  then show ?thesis
    using assms(1) v(1) by (simp add: get_embedding_def)
qed

theorem get_embedding_dimension_witness:
  "strip [104, 105] \<noteq> [] \<and>
   (\<exists>v. fst (get_embedding (\<lambda>t. Inr [replicate 1536 0]) [104, 105]
               world0) = Inr (Some v) \<and> length v = 1536)"
proof -
  have h1: "strip [104, 105] \<noteq> []"
    by (simp add: strip_def isspace_def)
  have h2: "honours_contract (\<lambda>t. Inr [replicate 1536 0])"
    by (simp add: honours_contract_def vector_index_def)
  show ?thesis
    using h1 h2 get_embedding_dimension [OF h1 h2, of world0]
    by blast
qed

section \<open>Properties of the Corpus Loader\<close>

lemma download_loop_answers:
  "\<forall>url\<in>set urls. answers g r h url \<Longrightarrow>
   download_loop g r h urls acc s =
     (Inr (acc @ concat (map (fetched g r h) urls)),
      s\<lparr>stdout := stdout s @ concat (map (failed g h) urls),
        http_calls := http_calls s @ map (\<lambda>url. (url, h)) urls\<rparr>)"
proof (induction urls arbitrary: acc s)
  case Nil
  then show ?case by simp
next
  case (Cons url urls)
  then have a: "answers g r h url" and rest: "\<forall>u\<in>set urls. answers g r h u"
    by simp_all
  note IH = Cons.IH [OF rest]
  show ?case
    using a
    by (auto simp: IH answers_def fetched_def failed_def print_def Let_def
             split: sum.splits if_splits)
qed











text \<open>
  C9. When every location of the list answers with a status other than 200 (the empty list
  of locations included), the Corpus Loader returns \<^verbatim>\<open>None\<close>, not an empty table, and
  the last line it has printed is that there are no dataframes to concatenate.
\<close>

theorem none_when_all_fail:
  assumes "\<forall>url\<in>set urls. \<exists>resp. g url (lit ''Bearer '' @ tok) = Inr resp \<and> status_code resp \<noteq> 200"
  shows "\<exists>s'. download_and_combine_parquet_files g r urls tok s = (Inr None, s') \<and>
           stdout s' = stdout s @ concat (map (failed g (lit ''Bearer '' @ tok)) urls) @
              [lit ''No dataframes to concatenate.'']"
proof -
  have a: "\<forall>url\<in>set urls. answers g r (lit ''Bearer '' @ tok) url"
    using assms by (auto simp: answers_def)
  have f: "concat (map (fetched g r (lit ''Bearer '' @ tok)) urls) = []"
    using assms by (auto simp: fetched_def)
  show ?thesis
    by (simp add: download_and_combine_parquet_files_def download_loop_answers [OF a] f Let_def print_def)
qed

theorem none_when_all_fail_witness:
  "\<exists>s'. download_and_combine_parquet_files
      (\<lambda>url h. Inr \<lparr>status_code = 503, content = []\<rparr>)
      (\<lambda>bytes. Inr \<lparr>columns = [], rows = []\<rparr>)
      [lit ''a'', lit ''b''] (lit ''tok'') world0 = (Inr None, s') \<and>
     stdout s' = [lit ''Failed to download Parquet file from a: 503'',
                  lit ''Failed to download Parquet file from b: 503'',
                  lit ''No dataframes to concatenate.'']"
proof -
  let ?g = "\<lambda>(url :: pystr) (h :: pystr). Inr \<lparr>status_code = 503, content = []\<rparr> :: error + response"
  have h: "\<forall>url\<in>set [lit ''a'', lit ''b''].
             \<exists>resp. ?g url (lit ''Bearer '' @ lit ''tok'') = Inr resp \<and> status_code resp \<noteq> 200"
    by simp
  show ?thesis
    using none_when_all_fail [OF h, where r = "\<lambda>bytes. Inr \<lparr>columns = [], rows = []\<rparr>"
        and s = world0]
    by (auto simp: failed_def lit_def failure_line_def str_int_def digits.simps world0_def)
qed

section \<open>Properties of the search and of the Answer Generator\<close>

lemma get_embedding_cases:
  "fst (get_embedding vo text s) = Inr r \<Longrightarrow> \<exists>v. r = Some v"
  by (auto simp: get_embedding_def Let_def split: if_splits sum.splits list.splits)

text \<open>
  C10. \<open>get_embedding\<close> never returns \<^verbatim>\<open>None\<close>, so \<open>vector_search\<close> never returns its
  message about a failed embedding, whatever the services do. For a blank query the
  pipeline is sent to the collection with the empty list as query vector, without any
  request to the embedding service, and \<open>vector_search\<close> returns what the collection
  answers.
\<close>

theorem guard_unreachable:
  "fst (get_embedding vo user_query s) \<noteq> Inr None \<and>
   (\<forall>m. fst (vector_search vo aggregate user_query s) \<noteq> Inr (Message m)) \<and>
   ((\<forall>c\<in>set user_query. isspace c) \<longrightarrow>
      db_calls (snd (vector_search vo aggregate user_query s)) =
        db_calls s @ [Aggregate (search_pipeline [])] \<and>
      embed_calls (snd (vector_search vo aggregate user_query s)) = embed_calls s \<and>
      fst (vector_search vo aggregate user_query s) =
        (case aggregate (search_pipeline []) of Inl e \<Rightarrow> Inl e | Inr rs \<Rightarrow> Inr (Results rs)))"
proof (intro conjI allI impI)
  show "fst (get_embedding vo user_query s) \<noteq> Inr None"
    using get_embedding_cases [of vo user_query s None] by auto
next
  fix m
  show "fst (vector_search vo aggregate user_query s) \<noteq> Inr (Message m)"
    using get_embedding_cases [of vo user_query s None]
    by (auto simp: vector_search_def Let_def split: prod.splits sum.splits option.splits)
next
  assume b: "\<forall>c\<in>set user_query. isspace c"
  then have g: "get_embedding vo user_query s =
      (Inr (Some []), print (lit ''Attempted to get embedding for empty text.'') s)"
    by (simp add: get_embedding_def strip_empty_iff)
  show "db_calls (snd (vector_search vo aggregate user_query s)) =
        db_calls s @ [Aggregate (search_pipeline [])]"
    by (simp add: vector_search_def g Let_def print_def split: sum.splits)
  show "embed_calls (snd (vector_search vo aggregate user_query s)) = embed_calls s"
    by (simp add: vector_search_def g Let_def print_def split: sum.splits)
  show "fst (vector_search vo aggregate user_query s) =
        (case aggregate (search_pipeline []) of Inl e \<Rightarrow> Inl e | Inr rs \<Rightarrow> Inr (Results rs))"
    by (simp add: vector_search_def g Let_def split: sum.splits)
qed

theorem guard_unreachable_witness:
  "isspace 32 \<and>
   db_calls (snd (vector_search (\<lambda>t. Inl (Remote [])) (\<lambda>p. Inr []) [32, 32] world0)) =
     [Aggregate [VectorSearch (lit ''vector_index'') [] (lit ''embedding'') 150 5,
                 Project [lit ''_id'', lit ''embedding''] (lit ''score'')]] \<and>
   fst (vector_search (\<lambda>t. Inl (Remote [])) (\<lambda>p. Inr []) [32, 32] world0) = Inr (Results [])"
proof -
  have h: "\<forall>c\<in>set [32, 32]. isspace c"
    by (simp add: isspace_def)
  show ?thesis
    using h guard_unreachable [where user_query = "[32, 32]" and vo = "\<lambda>t. Inl (Remote [])"
        and aggregate = "\<lambda>p. Inr []" and s = world0]
    by (simp add: world0_def search_pipeline_def)
qed

lemma render_results_concat:
  "render_results fl acc rs = acc @ concat (map (result_line fl) rs)"
  by (induction rs arbitrary: acc) simp_all

lemma result_line_fields:
  "result_line fl result =
     lit ''Title: '' @
       (case result (lit ''title'') of Some v \<Rightarrow> format_value fl v | None \<Rightarrow> lit ''N/A'') @
     lit '', Company Name: '' @
       (case result (lit ''companyName'') of Some v \<Rightarrow> format_value fl v | None \<Rightarrow> lit ''N/A'') @
     lit '', Company URL: '' @
       (case result (lit ''companyUrl'') of Some v \<Rightarrow> format_value fl v | None \<Rightarrow> lit ''N/A'') @
     lit '', Date Published: '' @
       (case result (lit ''published_at'') of Some v \<Rightarrow> format_value fl v | None \<Rightarrow> lit ''N/A'') @
     lit '', Article URL: '' @
       (case result (lit ''url'') of Some v \<Rightarrow> format_value fl v | None \<Rightarrow> lit ''N/A'') @
     lit '', Description: '' @
       (case result (lit ''description'') of Some v \<Rightarrow> format_value fl v | None \<Rightarrow> lit ''N/A'') @
     lit '', '' @ [10]"
  by (simp add: result_line_def get_field_def lit_def)

text \<open>
  C4. Once \<open>vector_search\<close> has returned the list \<open>rs\<close>, \<open>handle_user_query\<close> sends
  exactly one request to the language model. Its single user message is the instruction
  text, the query as given, the words that introduce the context, and the context block.
  The context block is the concatenation, in the order of the results, of one line for
  each result: title, company name, company URL, date published, article URL and
  description, each after its label and followed by a comma and a space, then a newline,
  with \<^verbatim>\<open>N/A\<close> for a field that the result does not have. What is returned is the first
  text segment of the answer together with that context block; an exception of the
  model, or an answer without any segment, is raised to the caller.
\<close>

theorem handle_user_query_request:
  assumes "vector_search vo aggregate query s = (Inr (Results rs), s1)"
  shows
    "let context_block =
           concat (map (\<lambda>result.
             lit ''Title: '' @
               (case result (lit ''title'') of Some v \<Rightarrow> format_value fl v | None \<Rightarrow> lit ''N/A'') @
             lit '', Company Name: '' @
               (case result (lit ''companyName'') of Some v \<Rightarrow> format_value fl v | None \<Rightarrow> lit ''N/A'') @
             lit '', Company URL: '' @
               (case result (lit ''companyUrl'') of Some v \<Rightarrow> format_value fl v | None \<Rightarrow> lit ''N/A'') @
             lit '', Date Published: '' @
               (case result (lit ''published_at'') of Some v \<Rightarrow> format_value fl v | None \<Rightarrow> lit ''N/A'') @
             lit '', Article URL: '' @
               (case result (lit ''url'') of Some v \<Rightarrow> format_value fl v | None \<Rightarrow> lit ''N/A'') @
             lit '', Description: '' @
               (case result (lit ''description'') of Some v \<Rightarrow> format_value fl v | None \<Rightarrow> lit ''N/A'') @
             lit '', '' @ [10]) rs);
         req = \<lparr>model = lit ''claude-3-opus-20240229'',
                max_tokens = 1024,
                system = lit ''You are Venture Captital Tech Analyst with access to some tech company articles and information. You use the information you are given to provide advice.'',
                messages = [(lit ''user'',
                             lit ''Answer this user query: '' @ query @
                             lit '' with the following context: '' @ context_block)]\<rparr>
     in llm_calls (snd (handle_user_query vo aggregate messages_create fl query s)) =
          llm_calls s1 @ [req] \<and>
        fst (handle_user_query vo aggregate messages_create fl query s) =
          (case messages_create req of
             Inl e \<Rightarrow> Inl e
           | Inr [] \<Rightarrow> Inl IndexError
           | Inr (t # rest) \<Rightarrow> Inr (t, context_block))"
proof -
  have c: "render_results fl [] rs = concat (map (result_line fl) rs)"
    by (simp add: render_results_concat)
  have r: "result_line fl = (\<lambda>result.
             lit ''Title: '' @
               (case result (lit ''title'') of Some v \<Rightarrow> format_value fl v | None \<Rightarrow> lit ''N/A'') @
             lit '', Company Name: '' @
               (case result (lit ''companyName'') of Some v \<Rightarrow> format_value fl v | None \<Rightarrow> lit ''N/A'') @
             lit '', Company URL: '' @
               (case result (lit ''companyUrl'') of Some v \<Rightarrow> format_value fl v | None \<Rightarrow> lit ''N/A'') @
             lit '', Date Published: '' @
               (case result (lit ''published_at'') of Some v \<Rightarrow> format_value fl v | None \<Rightarrow> lit ''N/A'') @
             lit '', Article URL: '' @
               (case result (lit ''url'') of Some v \<Rightarrow> format_value fl v | None \<Rightarrow> lit ''N/A'') @
             lit '', Description: '' @
               (case result (lit ''description'') of Some v \<Rightarrow> format_value fl v | None \<Rightarrow> lit ''N/A'') @
             lit '', '' @ [10])"
    by (rule ext) (rule result_line_fields)
  show ?thesis
    using assms
    unfolding Let_def
    by (simp add: handle_user_query_def render_knowledge_def c Let_def llm_request_def
          flip: r split: sum.splits list.splits)
qed


theorem handle_user_query_request_witness:
  "fst (handle_user_query (\<lambda>t. Inr [ [1, 0]])
          (\<lambda>p. Inr [ [lit ''title'' \<mapsto> VStr (lit ''T1''),
                       lit ''companyName'' \<mapsto> VStr (lit ''ACME''),
                       lit ''companyUrl'' \<mapsto> VStr (lit ''acme.example''),
                       lit ''published_at'' \<mapsto> VStr (lit ''2024-01-02''),
                       lit ''url'' \<mapsto> VStr (lit ''news.example/1''),
                       lit ''description'' \<mapsto> VStr (lit ''D1''),
                       lit ''score'' \<mapsto> VNum 1],
                     [lit ''url'' \<mapsto> VNone]])
          (\<lambda>req. Inr [lit ''answer'', lit ''more'']) (\<lambda>x. []) (lit ''q'') world0) =
     Inr (lit ''answer'',
          lit ''Title: T1, Company Name: ACME, Company URL: acme.example, Date Published: 2024-01-02, Article URL: news.example/1, Description: D1, '' @ [10] @
          lit ''Title: N/A, Company Name: N/A, Company URL: N/A, Date Published: N/A, Article URL: None, Description: N/A, '' @ [10]) \<and>
   llm_calls (snd (handle_user_query (\<lambda>t. Inr [ [1, 0]])
          (\<lambda>p. Inr [ [lit ''title'' \<mapsto> VStr (lit ''T1''),
                       lit ''companyName'' \<mapsto> VStr (lit ''ACME''),
                       lit ''companyUrl'' \<mapsto> VStr (lit ''acme.example''),
                       lit ''published_at'' \<mapsto> VStr (lit ''2024-01-02''),
                       lit ''url'' \<mapsto> VStr (lit ''news.example/1''),
                       lit ''description'' \<mapsto> VStr (lit ''D1''),
                       lit ''score'' \<mapsto> VNum 1],
                     [lit ''url'' \<mapsto> VNone]])
          (\<lambda>req. Inr [lit ''answer'', lit ''more'']) (\<lambda>x. []) (lit ''q'') world0)) =
     [\<lparr>model = lit ''claude-3-opus-20240229'',
       max_tokens = 1024,
       system = lit ''You are Venture Captital Tech Analyst with access to some tech company articles and information. You use the information you are given to provide advice.'',
       messages = [(lit ''user'',
          lit ''Answer this user query: q with the following context: Title: T1, Company Name: ACME, Company URL: acme.example, Date Published: 2024-01-02, Article URL: news.example/1, Description: D1, '' @ [10] @
          lit ''Title: N/A, Company Name: N/A, Company URL: N/A, Date Published: N/A, Article URL: None, Description: N/A, '' @ [10])]\<rparr>]"
proof -
  let ?vo = "\<lambda>t :: pystr. Inr [ [1, 0]] :: error + real list list"
  let ?rs = "[ [lit ''title'' \<mapsto> VStr (lit ''T1''),
                       lit ''companyName'' \<mapsto> VStr (lit ''ACME''),
                       lit ''companyUrl'' \<mapsto> VStr (lit ''acme.example''),
                       lit ''published_at'' \<mapsto> VStr (lit ''2024-01-02''),
                       lit ''url'' \<mapsto> VStr (lit ''news.example/1''),
                       lit ''description'' \<mapsto> VStr (lit ''D1''),
                       lit ''score'' \<mapsto> VNum 1],
                     [lit ''url'' \<mapsto> VNone]] :: doc list"
  let ?agg = "\<lambda>p :: stage list. Inr ?rs :: error + doc list"
  let ?s1 = "world0\<lparr>embed_calls := [(lit ''q'', lit ''voyage-large-2'', lit ''document'')],
                    db_calls := [Aggregate (search_pipeline [1, 0])]\<rparr>"
  have h: "vector_search ?vo ?agg (lit ''q'') world0 = (Inr (Results ?rs), ?s1)"
    by (simp add: vector_search_def get_embedding_def strip_def isspace_def lit_def Let_def
          world0_def)
  show ?thesis
    using handle_user_query_request [OF h,
        where messages_create = "\<lambda>req. Inr [lit ''answer'', lit ''more'']" and fl = "\<lambda>x. []"]
    by (simp add: Let_def lit_def world0_def)
qed

text \<open>
  C7. When \<open>vector_search\<close> has returned the empty list, the context block is the empty
  string, the request to the language model is still sent, with a user message that ends
  after the words introducing the context, and the first text segment the model yields is
  returned with the empty context block.
\<close>

theorem handle_user_query_empty:
  assumes "vector_search vo aggregate query s = (Inr (Results []), s1)"
    and "messages_create (llm_request query []) = Inr (t # rest)"
  shows "handle_user_query vo aggregate messages_create fl query s =
           (Inr (t, []), s1\<lparr>llm_calls := llm_calls s1 @ [llm_request query []]\<rparr>) \<and>
         messages (llm_request query []) =
           [(lit ''user'', lit ''Answer this user query: '' @ query @
               lit '' with the following context: '')]"
  using assms
  by (simp add: handle_user_query_def render_knowledge_def Let_def llm_request_def)

theorem handle_user_query_empty_witness:
  "handle_user_query (\<lambda>t. Inr [ [1, 0]]) (\<lambda>p. Inr []) (\<lambda>req. Inr [lit ''answer''])
      (\<lambda>x. []) (lit ''q'') world0 =
     (Inr (lit ''answer'', []),
      world0\<lparr>embed_calls := [(lit ''q'', lit ''voyage-large-2'', lit ''document'')],
             db_calls := [Aggregate (search_pipeline [1, 0])],
             llm_calls := [llm_request (lit ''q'') []]\<rparr>)"
proof -
  let ?vo = "\<lambda>t :: pystr. Inr [ [1, 0]] :: error + real list list"
  let ?agg = "\<lambda>p :: stage list. Inr [] :: error + doc list"
  let ?s1 = "world0\<lparr>embed_calls := [(lit ''q'', lit ''voyage-large-2'', lit ''document'')],
                    db_calls := [Aggregate (search_pipeline [1, 0])]\<rparr>"
  have h1: "vector_search ?vo ?agg (lit ''q'') world0 = (Inr (Results []), ?s1)"
    by (simp add: vector_search_def get_embedding_def strip_def isspace_def lit_def Let_def
          world0_def)
  have h2: "(\<lambda>req :: request. Inr [lit ''answer''] :: error + pystr list) (llm_request (lit ''q'') []) =
              Inr (lit ''answer'' # [])"
    by simp
  show ?thesis
    using handle_user_query_empty [OF h1, where messages_create = "\<lambda>req. Inr [lit ''answer'']",
        OF h2, where fl = "\<lambda>x. []"]
    by (simp add: world0_def)
qed

section \<open>Properties of the search against the store\<close>

lemma store_pipeline:
  "store_aggregate sim ix docs (search_pipeline qv) = Inr rs \<Longrightarrow>
   rs = project_stage [lit ''_id'', lit ''embedding''] (lit ''score'') (ranked sim ix docs qv)"
  by (auto simp: search_pipeline_def vectorSearch_stage_def ranked_def split: if_splits)

lemma vector_search_store:
  assumes "fst (vector_search vo (store_aggregate sim ix docs) user_query s) = Inr out"
  shows "\<exists>qv. out = Results (project_stage [lit ''_id'', lit ''embedding''] (lit ''score'')
                           (ranked sim ix docs qv))"
proof (cases "get_embedding vo user_query s")
  case (Pair res s1)
  show ?thesis
  proof (cases res)
    case (Inl e)
    with Pair assms show ?thesis
      by (simp add: vector_search_def)
  next
    case (Inr r)
    with Pair get_embedding_cases [of vo user_query s r] obtain qv where qv: "r = Some qv"
      by auto
    show ?thesis
    proof (cases "store_aggregate sim ix docs (search_pipeline qv)")
      case (Inl e)
      with Pair Inr qv assms show ?thesis
        by (simp add: vector_search_def Let_def)
    next
      case b: (Inr rs)
      from store_pipeline [OF b] Pair Inr qv assms b show ?thesis
        by (auto simp: vector_search_def Let_def)
    qed
  qed
qed

lemma ranked_length: "length (ranked sim ix docs qv) \<le> 5"
  by (simp add: ranked_def)

lemma ranked_sorted: "sorted_wrt (\<lambda>a b. b \<le> a) (map snd (ranked sim ix docs qv))"
proof -
  let ?xs = "map (\<lambda>d. (d, similarity sim qv (lit ''embedding'') d))
               (filter (searchable ix (lit ''embedding'')) docs)"
  have "sorted (map (\<lambda>h. - snd h) (sort_key (\<lambda>h. - snd h) ?xs))"
    by (rule sorted_sort_key)
  then have "sorted_wrt (\<lambda>a b. snd b \<le> snd a) (sort_key (\<lambda>h. - snd h) ?xs)"
    by (simp add: sorted_wrt_map)
  then have "sorted_wrt (\<lambda>a b. snd b \<le> snd a) (ranked sim ix docs qv)"
    unfolding ranked_def by (intro sorted_wrt_take)
  then show ?thesis
    by (simp add: sorted_wrt_map)
qed

lemma ranked_docs: "(d, sc) \<in> set (ranked sim ix docs qv) \<Longrightarrow> d \<in> set docs"
proof -
  assume "(d, sc) \<in> set (ranked sim ix docs qv)"
  then have "(d, sc) \<in> set (take 150 (sort_key (\<lambda>h. - snd h)
       (map (\<lambda>d. (d, similarity sim qv (lit ''embedding'') d))
          (filter (searchable ix (lit ''embedding'')) docs))))"
    unfolding ranked_def by (rule in_set_takeD)
  then have "(d, sc) \<in> set (sort_key (\<lambda>h. - snd h)
       (map (\<lambda>d. (d, similarity sim qv (lit ''embedding'') d))
          (filter (searchable ix (lit ''embedding'')) docs)))"
    by (rule in_set_takeD)
  then show "d \<in> set docs"
    by auto
qed

lemma project_scores:
  "map (\<lambda>r. r f) (project_stage ex f hits) = map (\<lambda>x. Some (VNum x)) (map snd hits)"
  by (simp add: project_stage_def split_def)

text \<open>
  C1. Against the store of the specification, whatever the query, the similarity metric,
  the index and the records stored: when \<open>vector_search\<close> returns records, they are at
  most 5, the limit written in the pipeline, and their similarity scores, in the order
  returned, never increase. It does return records when the query is not blank, the
  embedding service honours its contract and the index is the one of the notebook.
\<close>

theorem vector_search_limit_sorted:
  "(\<forall>rs. fst (vector_search vo (store_aggregate sim ix docs) user_query s) = Inr (Results rs) \<longrightarrow>
      length rs \<le> 5 \<and>
      (\<exists>scores. map (\<lambda>r. r (lit ''score'')) rs = map (\<lambda>x. Some (VNum x)) scores \<and>
                 sorted_wrt (\<lambda>a b. b \<le> a) scores)) \<and>
   (strip user_query \<noteq> [] \<and> honours_contract vo \<longrightarrow>
      (\<exists>rs. fst (vector_search vo (store_aggregate sim vector_index docs) user_query s) =
              Inr (Results rs)))"
proof (intro conjI allI impI)
  fix rs
  assume "fst (vector_search vo (store_aggregate sim ix docs) user_query s) = Inr (Results rs)"
  from vector_search_store [OF this] obtain qv where
    rs: "rs = project_stage [lit ''_id'', lit ''embedding''] (lit ''score'') (ranked sim ix docs qv)"
    by blast
  show "length rs \<le> 5"
    by (simp add: rs project_stage_def ranked_length)
  show "\<exists>scores. map (\<lambda>r. r (lit ''score'')) rs = map (\<lambda>x. Some (VNum x)) scores \<and>
                 sorted_wrt (\<lambda>a b. b \<le> a) scores"
    unfolding rs project_scores using ranked_sorted by blast
next
  assume a: "strip user_query \<noteq> [] \<and> honours_contract vo"
  then obtain v where v: "vo user_query = Inr [v]" "length v = numDimensions vector_index"
    unfolding honours_contract_def by blast
  show "\<exists>rs. fst (vector_search vo (store_aggregate sim vector_index docs) user_query s) =
              Inr (Results rs)"
    using a v
    by (simp add: vector_search_def get_embedding_def search_pipeline_def
          vectorSearch_stage_def Let_def)
qed

lemma sample_search:
  "fst (vector_search (\<lambda>t. Inr [ [1, 0]])
         (store_aggregate (\<lambda>u v. sum_list (map2 times u v))
            \<lparr>index_name = lit ''vector_index'', index_path = lit ''embedding'', numDimensions = 2\<rparr>
            (map (\<lambda>k. [lit ''_id'' \<mapsto> VNum k, lit ''title'' \<mapsto> VStr [],
                         lit ''embedding'' \<mapsto> VVec [k, 0]]) [3, 1, 6, 2, 5, 4]))
         (lit ''q'') world0) =
   Inr (Results (map (\<lambda>k. ([lit ''_id'' \<mapsto> VNum k, lit ''title'' \<mapsto> VStr [],
                         lit ''embedding'' \<mapsto> VVec [k, 0]] |` (- {lit ''_id'', lit ''embedding''}))
                        (lit ''score'' \<mapsto> VNum k)) [6, 5, 4, 3, 2]))"
  by (simp add: vector_search_def get_embedding_def strip_def isspace_def search_pipeline_def
        vectorSearch_stage_def project_stage_def searchable_def similarity_def Let_def lit_def)

theorem vector_search_limit_sorted_witness:
  "\<exists>rs. fst (vector_search (\<lambda>t. Inr [ [1, 0]])
         (store_aggregate (\<lambda>u v. sum_list (map2 times u v))
            \<lparr>index_name = lit ''vector_index'', index_path = lit ''embedding'', numDimensions = 2\<rparr>
            (map (\<lambda>k. [lit ''_id'' \<mapsto> VNum k, lit ''title'' \<mapsto> VStr [],
                         lit ''embedding'' \<mapsto> VVec [k, 0]]) [3, 1, 6, 2, 5, 4]))
         (lit ''q'') world0) = Inr (Results rs) \<and>
     length rs = 5 \<and> length rs \<le> 5 \<and>
     map (\<lambda>r. r (lit ''score'')) rs = map (\<lambda>x. Some (VNum x)) [6, 5, 4, 3, 2]"
  using sample_search
    vector_search_limit_sorted [where vo = "\<lambda>t. Inr [ [1, 0]]"
      and sim = "\<lambda>u v. sum_list (map2 times u v)"
      and ix = "\<lparr>index_name = lit ''vector_index'', index_path = lit ''embedding'', numDimensions = 2\<rparr>"
      and docs = "map (\<lambda>k. [lit ''_id'' \<mapsto> VNum k, lit ''title'' \<mapsto> VStr [],
                         lit ''embedding'' \<mapsto> VVec [k, 0]]) [3, 1, 6, 2, 5, 4]"
      and user_query = "lit ''q''" and s = world0]
  by simp

text \<open>
  C6. Against the store of the specification, every record that \<open>vector_search\<close> returns
  has no \<^verbatim>\<open>_id\<close> field and no \<^verbatim>\<open>embedding\<close> field, carries a number in its \<^verbatim>\<open>score\<close>
  field, and agrees on every other field with a record of the store.
\<close>

theorem vector_search_projection:
  assumes "fst (vector_search vo (store_aggregate sim ix docs) user_query s) = Inr (Results rs)"
  shows "\<forall>r\<in>set rs.
           r (lit ''_id'') = None \<and> r (lit ''embedding'') = None \<and>
           (\<exists>x. r (lit ''score'') = Some (VNum x)) \<and>
           (\<exists>d\<in>set docs. \<forall>k. k \<noteq> lit ''_id'' \<and> k \<noteq> lit ''embedding'' \<and> k \<noteq> lit ''score''
                               \<longrightarrow> r k = d k)"
proof
  fix r assume r: "r \<in> set rs"
  from vector_search_store [OF assms] obtain qv where
    rs: "rs = project_stage [lit ''_id'', lit ''embedding''] (lit ''score'') (ranked sim ix docs qv)"
    by blast
  from r obtain d sc where h: "(d, sc) \<in> set (ranked sim ix docs qv)"
    and rd: "r = (d |` (- {lit ''_id'', lit ''embedding''}))(lit ''score'' \<mapsto> VNum sc)"
    unfolding rs project_stage_def by auto
  have d: "d \<in> set docs"
    using h by (rule ranked_docs)
  have ne: "lit ''_id'' \<noteq> lit ''score''" "lit ''embedding'' \<noteq> lit ''score''"
    by (simp_all add: lit_def)
  show "r (lit ''_id'') = None \<and> r (lit ''embedding'') = None \<and>
           (\<exists>x. r (lit ''score'') = Some (VNum x)) \<and>
           (\<exists>d\<in>set docs. \<forall>k. k \<noteq> lit ''_id'' \<and> k \<noteq> lit ''embedding'' \<and> k \<noteq> lit ''score''
                               \<longrightarrow> r k = d k)"
    using d ne by (auto simp: rd restrict_map_def)
qed

theorem vector_search_projection_witness:
  "\<exists>r rs. fst (vector_search (\<lambda>t. Inr [ [1, 0]])
         (store_aggregate (\<lambda>u v. sum_list (map2 times u v))
            \<lparr>index_name = lit ''vector_index'', index_path = lit ''embedding'', numDimensions = 2\<rparr>
            (map (\<lambda>k. [lit ''_id'' \<mapsto> VNum k, lit ''title'' \<mapsto> VStr [],
                         lit ''embedding'' \<mapsto> VVec [k, 0]]) [3, 1, 6, 2, 5, 4]))
         (lit ''q'') world0) = Inr (Results (r # rs)) \<and>
     r (lit ''_id'') = None \<and> r (lit ''embedding'') = None \<and>
     r (lit ''score'') = Some (VNum 6) \<and> r (lit ''title'') = Some (VStr [])"
proof -
  let ?d = "\<lambda>k. [lit ''_id'' \<mapsto> VNum k, lit ''title'' \<mapsto> VStr [],
                 lit ''embedding'' \<mapsto> VVec [k, 0]]"
  let ?p = "\<lambda>k. (?d k |` (- {lit ''_id'', lit ''embedding''}))(lit ''score'' \<mapsto> VNum k)"
  have s: "fst (vector_search (\<lambda>t. Inr [ [1, 0]])
         (store_aggregate (\<lambda>u v. sum_list (map2 times u v))
            \<lparr>index_name = lit ''vector_index'', index_path = lit ''embedding'', numDimensions = 2\<rparr>
            (map ?d [3, 1, 6, 2, 5, 4]))
         (lit ''q'') world0) = Inr (Results (?p 6 # map ?p [5, 4, 3, 2]))"
    using sample_search by simp
  have "?p 6 \<in> set (map ?p [6, 5, 4, 3, 2])"
    by simp
  with vector_search_projection [OF sample_search]
  have a: "?p 6 (lit ''_id'') = None \<and> ?p 6 (lit ''embedding'') = None"
    by blast
  have b: "?p 6 (lit ''score'') = Some (VNum 6)"
    by simp
  have c: "?p 6 (lit ''title'') = Some (VStr [])"
    by (simp add: lit_def)
  show ?thesis
    using s a b c by blast
qed

section \<open>Properties of the database cells\<close>

text \<open>
  C8. When establishing the client raises \<open>ConnectionFailure\<close>, the failure is printed,
  \<open>get_mongo_client\<close> returns \<^verbatim>\<open>None\<close>, and the run stops with the \<^verbatim>\<open>TypeError\<close> of
  subscripting it: neither the deletion nor the insertion is sent to the database.
\<close>

theorem connection_failure_aborts:
  assumes "MongoClient mongo_uri = Inl (ConnectionFailure e)"
  shows "\<exists>s'. database_cells MongoClient delete_many insert_many mongo_uri combined_df s =
                (Inl TypeError, s') \<and>
              last (stdout s') = lit ''Connection failed: '' @ e \<and>
              db_calls s' = db_calls s"
  using assms
  by (simp add: database_cells_def connect_cell_def get_mongo_client_def print_def Let_def)


theorem connection_failure_aborts_witness:
  "database_cells (\<lambda>uri. Inl (ConnectionFailure (lit ''timed out'')) :: error + unit)
      (\<lambda>c. Inr ()) (\<lambda>c records. Inr ()) (Some (lit ''mongodb://host''))
      \<lparr>columns = [], rows = [Map.empty]\<rparr> world0 =
     (Inl TypeError, world0\<lparr>stdout := [lit ''Connection failed: timed out'']\<rparr>)"
proof -
  let ?mc = "\<lambda>uri :: pystr option. Inl (ConnectionFailure (lit ''timed out'')) :: error + unit"
  have h: "?mc (Some (lit ''mongodb://host'')) = Inl (ConnectionFailure (lit ''timed out''))"
    by simp
  from connection_failure_aborts [where MongoClient = ?mc, OF h, where delete_many = "\<lambda>c. Inr ()"
      and insert_many = "\<lambda>c records. Inr ()" and combined_df = "\<lparr>columns = [], rows = [Map.empty]\<rparr>" and s = world0]
  obtain s' where
    "database_cells ?mc (\<lambda>c. Inr ()) (\<lambda>c records. Inr ()) (Some (lit ''mongodb://host''))
        \<lparr>columns = [], rows = [Map.empty]\<rparr> world0 = (Inl TypeError, s')"
    by blast
  then show ?thesis
    by (simp add: database_cells_def connect_cell_def get_mongo_client_def print_def lit_def
          world0_def Let_def)
qed

end
